theory Spec2Isabelle
  imports Main "HOL-Library.Word"
begin

section \<open>Go standard-library string and path functions used by the server\<close>

text \<open>
  A Go \<open>string\<close> is a byte sequence; it is modelled as \<^typ>\<open>string\<close>, one \<^typ>\<open>char\<close> per
  byte.  The functions below follow package \<open>strings\<close> and package \<open>path\<close>
  (\<open>path/filepath\<close> on a Unix host computes the same results).
\<close>

definition HasPrefix :: "string \<Rightarrow> string \<Rightarrow> bool" where
  "HasPrefix s p = (take (length p) s = p)"

definition HasSuffix :: "string \<Rightarrow> string \<Rightarrow> bool" where
  "HasSuffix s p = (length p \<le> length s \<and> drop (length s - length p) s = p)"

definition TrimPrefix :: "string \<Rightarrow> string \<Rightarrow> string" where
  "TrimPrefix s p = (if HasPrefix s p then drop (length p) s else s)"

definition TrimSuffix :: "string \<Rightarrow> string \<Rightarrow> string" where
  "TrimSuffix s p = (if HasSuffix s p then take (length s - length p) s else s)"

text \<open>\<open>strings.Trim(s, cutset)\<close> for a cutset of ASCII bytes: strip the bytes of the cutset
  from both ends.\<close>

definition Trim :: "string \<Rightarrow> string \<Rightarrow> string" where
  "Trim s cutset =
     rev (dropWhile (\<lambda>c. c \<in> set cutset) (rev (dropWhile (\<lambda>c. c \<in> set cutset) s)))"

text \<open>
  \<open>strings.TrimSpace\<close> strips every leading and trailing rune with the Unicode White_Space
  property.  In UTF-8 these runes are the six ASCII bytes and the byte sequences listed in
  \<open>space_runes\<close>; each of the longer ones begins with a byte that can only start a rune, so
  a rune decoded at some position is white space exactly when one of the sequences is a
  prefix of the bytes there.
\<close>

definition ascii_space :: "char list" where
  "ascii_space = [CHR 0x09, CHR 0x0A, CHR 0x0B, CHR 0x0C, CHR 0x0D, CHR 0x20]"

definition space_runes :: "string list" where
  "space_runes =
     map (\<lambda>c. [c]) ascii_space @
     [[CHR 0xC2, CHR 0x85], [CHR 0xC2, CHR 0xA0], [CHR 0xE1, CHR 0x9A, CHR 0x80]] @
     map (\<lambda>c. [CHR 0xE2, CHR 0x80, c])
       [CHR 0x80, CHR 0x81, CHR 0x82, CHR 0x83, CHR 0x84, CHR 0x85, CHR 0x86, CHR 0x87,
        CHR 0x88, CHR 0x89, CHR 0x8A, CHR 0xA8, CHR 0xA9, CHR 0xAF] @
     [[CHR 0xE2, CHR 0x81, CHR 0x9F], [CHR 0xE3, CHR 0x80, CHR 0x80]]"

definition leading_space :: "string \<Rightarrow> nat" where
  "leading_space s =
     (case filter (\<lambda>r. HasPrefix s r) space_runes of [] \<Rightarrow> 0 | r # _ \<Rightarrow> length r)"

definition trailing_space :: "string \<Rightarrow> nat" where
  "trailing_space s =
     (case filter (\<lambda>r. HasSuffix s r) space_runes of [] \<Rightarrow> 0 | r # _ \<Rightarrow> length r)"

function TrimLeftSpace :: "string \<Rightarrow> string" where
  "TrimLeftSpace s =
     (if leading_space s = 0 \<or> s = [] then s else TrimLeftSpace (drop (leading_space s) s))"
  by pat_completeness auto
termination
  by (relation "measure length") auto

function TrimRightSpace :: "string \<Rightarrow> string" where
  "TrimRightSpace s =
     (if trailing_space s = 0 \<or> s = [] then s
      else TrimRightSpace (take (length s - trailing_space s) s))"
  by pat_completeness auto
termination
  by (relation "measure length") auto

declare TrimLeftSpace.simps [simp del] TrimRightSpace.simps [simp del]

definition TrimSpace :: "string \<Rightarrow> string" where
  "TrimSpace s = TrimRightSpace (TrimLeftSpace s)"

text \<open>\<open>strings.Split(s, sep)\<close> for a one-byte separator, and \<open>strings.Join\<close>.\<close>

fun Split :: "string \<Rightarrow> char \<Rightarrow> string list" where
  "Split [] sep = [[]]"
| "Split (x # xs) sep =
     (if x = sep then [] # Split xs sep
      else (case Split xs sep of [] \<Rightarrow> [[x]] | e # es \<Rightarrow> (x # e) # es))"

fun Join :: "string list \<Rightarrow> string \<Rightarrow> string" where
  "Join [] sep = []"
| "Join [e] sep = e"
| "Join (e # es) sep = e @ sep @ Join es sep"

text \<open>
  \<open>path.Clean\<close>: drop empty and \<open>.\<close> elements, let each inner \<open>..\<close> remove the element
  before it, drop \<open>..\<close> at the root of a rooted path, keep leading \<open>..\<close> of a relative one;
  the empty result is \<open>.\<close>.  The second argument of \<open>clean_elems\<close> is the output so far,
  last element first.
\<close>

fun clean_elems :: "bool \<Rightarrow> string list \<Rightarrow> string list \<Rightarrow> string list" where
  "clean_elems rooted out [] = rev out"
| "clean_elems rooted out (e # es) =
     (if e = [] \<or> e = ''.'' then clean_elems rooted out es
      else if e = ''..'' then
        (case out of
           [] \<Rightarrow> if rooted then clean_elems rooted [] es else clean_elems rooted [''..''] es
         | t # ts \<Rightarrow> if t = ''..'' then clean_elems rooted (''..'' # out) es
                     else clean_elems rooted ts es)
      else clean_elems rooted (e # out) es)"

definition Clean :: "string \<Rightarrow> string" where
  "Clean p =
     (if p = [] then ''.''
      else let rooted = (hd p = CHR ''/'');
               r = (if rooted then ''/'' else []) @ Join (clean_elems rooted [] (Split p CHR ''/'')) ''/''
           in if r = [] then ''.'' else r)"

text \<open>\<open>path.Join(a, b)\<close> (and \<open>filepath.Join(a, b)\<close>) for two elements.\<close>

definition path_Join :: "string \<Rightarrow> string \<Rightarrow> string" where
  "path_Join a b =
     (if a = [] \<and> b = [] then []
      else if a = [] then Clean b
      else Clean (a @ ''/'' @ b))"

section \<open>Package common: repository names and the HTTP announcement\<close>

text \<open>\<open>NormalizeRepoPath\<close> (pkg/common): trim white space, append \<open>.git\<close> when missing.\<close>

definition NormalizeRepoPath :: "string \<Rightarrow> string" where
  "NormalizeRepoPath repoPath =
     (let repoPath = TrimSpace repoPath
      in if \<not> HasSuffix repoPath ''.git'' then repoPath @ ''.git'' else repoPath)"

text \<open>
  An \<open>io.Writer\<close>: the bytes accepted so far and the number of further \<open>Write\<close> calls
  that will succeed (\<open>None\<close>: every call succeeds).  A failing call accepts nothing.
\<close>

record Writer =
  written :: string
  budget :: "nat option"

datatype io_error = WriteFailed

definition Write :: "Writer \<Rightarrow> string \<Rightarrow> Writer \<times> io_error option" where
  "Write w p =
     (case budget w of
        None \<Rightarrow> (w\<lparr>written := written w @ p\<rparr>, None)
      | Some 0 \<Rightarrow> (w, Some WriteFailed)
      | Some (Suc k) \<Rightarrow> (w\<lparr>written := written w @ p, budget := Some k\<rparr>, None))"

definition hexdigits :: string where
  "hexdigits = ''0123456789abcdef''"

text \<open>
  \<open>WriteServiceAdvertisement\<close>: the pkt-line header is four hexadecimal digits of
  \<open>n = 4 + len(payload)\<close>; \<open>(n >> k) & 0xF\<close> on the non-negative \<open>int\<close> \<open>n\<close> is
  \<open>(n div 2 ^ k) mod 16\<close>.
\<close>

definition WriteServiceAdvertisement :: "Writer \<Rightarrow> string \<Rightarrow> Writer \<times> io_error option" where
  "WriteServiceAdvertisement w service =
     (let payload = ''# service='' @ service @ [CHR 0x0A];
          n = 4 + length payload;
          hdr = [hexdigits ! ((n div 4096) mod 16),
                 hexdigits ! ((n div 256) mod 16),
                 hexdigits ! ((n div 16) mod 16),
                 hexdigits ! (n mod 16)]
      in case Write w hdr of
           (w1, Some err) \<Rightarrow> (w1, Some err)
         | (w1, None) \<Rightarrow>
             (case Write w1 payload of
                (w2, Some err) \<Rightarrow> (w2, Some err)
              | (w2, None) \<Rightarrow> Write w2 ''0000''))"

section \<open>Repository locations of the two storage backends\<close>

text \<open>\<open>S3Storage.getRepoKey\<close>.\<close>

definition getRepoKey :: "string \<Rightarrow> string" where
  "getRepoKey repoPath =
     (let cleanPath = Trim repoPath ''/'';
          cleanPath = (if \<not> HasSuffix cleanPath ''.git'' then cleanPath @ ''.git'' else cleanPath)
      in ''repositories/'' @ cleanPath)"

text \<open>\<open>LocalStorage.getFullPath\<close>; \<open>basePath\<close> is the configured storage directory.\<close>

definition getFullPath :: "string \<Rightarrow> string \<Rightarrow> string" where
  "getFullPath basePath repoPath =
     (let cleanPath = Clean repoPath;
          cleanPath = (if \<not> HasSuffix cleanPath ''.git'' then cleanPath @ ''.git'' else cleanPath)
      in path_Join basePath cleanPath)"

section \<open>Object hashes and object types of the Git engine\<close>

text \<open>
  A \<open>plumbing.Hash\<close> is an array of 20 bytes, modelled as a list of bytes of length 20.
  \<open>Hash.String\<close> is its lower-case hexadecimal text; \<open>plumbing.NewHash\<close> decodes
  hexadecimal text as far as it is valid (\<open>hex.DecodeString\<close> returns the bytes decoded
  before an error) and copies the result into a zeroed 20-byte array.
\<close>

type_synonym Hash = "8 word list"

definition ZeroHash :: Hash where
  "ZeroHash = replicate 20 0"

definition byte_hex :: "8 word \<Rightarrow> string" where
  "byte_hex b = [hexdigits ! (unat b div 16), hexdigits ! (unat b mod 16)]"

definition Hash_String :: "Hash \<Rightarrow> string" where
  "Hash_String h = concat (map byte_hex h)"

definition fromHexChar :: "char \<Rightarrow> nat option" where
  "fromHexChar c =
     (let n = (of_char c :: nat)
      in if 48 \<le> n \<and> n \<le> 57 then Some (n - 48)
         else if 97 \<le> n \<and> n \<le> 102 then Some (n - 97 + 10)
         else if 65 \<le> n \<and> n \<le> 70 then Some (n - 65 + 10)
         else None)"

fun hex_decode :: "string \<Rightarrow> 8 word list" where
  "hex_decode (p # q # rest) =
     (case fromHexChar p of
        None \<Rightarrow> []
      | Some a \<Rightarrow>
          (case fromHexChar q of
             None \<Rightarrow> []
           | Some b \<Rightarrow> word_of_nat (a * 16 + b) # hex_decode rest))"
| "hex_decode [p] = []"
| "hex_decode [] = []"

definition NewHash :: "string \<Rightarrow> Hash" where
  "NewHash s = take 20 (hex_decode s @ replicate 20 0)"

datatype ObjectType =
  InvalidObject | CommitObject | TreeObject | BlobObject | TagObject
  | OFSDeltaObject | REFDeltaObject | AnyObject

fun ObjectType_String :: "ObjectType \<Rightarrow> string" where
  "ObjectType_String CommitObject = ''commit''"
| "ObjectType_String TreeObject = ''tree''"
| "ObjectType_String BlobObject = ''blob''"
| "ObjectType_String TagObject = ''tag''"
| "ObjectType_String OFSDeltaObject = ''ofs-delta''"
| "ObjectType_String REFDeltaObject = ''ref-delta''"
| "ObjectType_String AnyObject = ''any''"
| "ObjectType_String InvalidObject = ''unknown''"

section \<open>The blob store behind the remote backend\<close>

text \<open>
  The S3 client of one bucket: the stored objects by key, and, for failure injection, the
  keys on which a get/head request, a put request or the reading of a response body
  fails.  Every request of the source is a function of this record; a put returns the
  updated record.
\<close>

record S3Object =
  Body :: string
  Metadata :: "string \<rightharpoonup> string"

record S3Client =
  objects :: "string \<rightharpoonup> S3Object"
  get_fails :: "string \<Rightarrow> bool"
  put_fails :: "string \<Rightarrow> bool"
  read_fails :: "string \<Rightarrow> bool"

datatype error =
  ErrInvalidType
  | ErrObjectNotFound
  | ErrReferenceNotFound
  | ErrReferenceChanged
  | ErrReferenceTypeMismatch
  | ErrRequestFailed
  | ErrNoSuchKey
  | ErrRead
  | ErrReader
  | ErrParse string

definition GetObject :: "S3Client \<Rightarrow> string \<Rightarrow> error + S3Object" where
  "GetObject c k =
     (if get_fails c k then Inl ErrRequestFailed
      else case objects c k of None \<Rightarrow> Inl ErrNoSuchKey | Some obj \<Rightarrow> Inr obj)"

definition HeadObject :: "S3Client \<Rightarrow> string \<Rightarrow> error + S3Object" where
  "HeadObject c k = GetObject c k"

definition PutObject :: "S3Client \<Rightarrow> string \<Rightarrow> S3Object \<Rightarrow> error + S3Client" where
  "PutObject c k obj =
     (if put_fails c k then Inl ErrRequestFailed
      else Inr (c\<lparr>objects := (objects c)(k \<mapsto> obj)\<rparr>))"

definition ReadAll :: "S3Client \<Rightarrow> string \<Rightarrow> S3Object \<Rightarrow> error + string" where
  "ReadAll c k obj = (if read_fails c k then Inl ErrRead else Inr (Body obj))"

section \<open>S3Storer: objects\<close>

text \<open>\<open>S3Storer.getObjectKey\<close>; \<open>repoPath\<close> is the key prefix of the repository.\<close>

definition getObjectKey :: "string \<Rightarrow> string \<Rightarrow> string" where
  "getObjectKey repoPath objectPath = path_Join repoPath objectPath"

text \<open>
  What \<open>SetEncodedObject\<close> asks of its \<open>plumbing.EncodedObject\<close> argument: \<open>Type()\<close>,
  \<open>Hash()\<close>, and \<open>Reader()\<close> with the bytes read from it (or its failure).
\<close>

record EncodedObj =
  obj_type :: ObjectType
  obj_hash :: Hash
  obj_content :: string
  obj_reader_fails :: bool

text \<open>The \<open>plumbing.MemoryObject\<close> that \<open>EncodedObject\<close> returns.\<close>

record MemoryObject =
  mo_type :: ObjectType
  mo_size :: nat
  mo_content :: string

definition objectKey :: "string \<Rightarrow> Hash \<Rightarrow> string" where
  "objectKey repoPath hash =
     getObjectKey repoPath
       (''objects/'' @ take 2 (Hash_String hash) @ ''/'' @ drop 2 (Hash_String hash))"

text \<open>
  \<open>S3Storer.SetEncodedObject\<close>.  \<open>hasher t content\<close> is the engine's
  \<open>plumbing.NewHasher(t, len(content))\<close> fed with \<open>content\<close>.  The result is the client
  after the call, the returned hash and the returned error.
\<close>

definition SetEncodedObject ::
  "(ObjectType \<Rightarrow> string \<Rightarrow> Hash) \<Rightarrow> S3Client \<Rightarrow> string \<Rightarrow> EncodedObj
     \<Rightarrow> S3Client \<times> Hash \<times> error option" where
  "SetEncodedObject hasher c repoPath obj =
     (if obj_type obj = OFSDeltaObject \<or> obj_type obj = REFDeltaObject
      then (c, ZeroHash, Some ErrInvalidType)
      else if obj_reader_fails obj then (c, ZeroHash, Some ErrReader)
      else
        let content = obj_content obj;
            hash = (if obj_hash obj = ZeroHash then hasher (obj_type obj) content
                    else obj_hash obj);
            key = objectKey repoPath hash
        in case PutObject c key
                  \<lparr>Body = content,
                   Metadata = [''git-type'' \<mapsto> ObjectType_String (obj_type obj)]\<rparr> of
             Inl err \<Rightarrow> (c, hash, Some err)
           | Inr c' \<Rightarrow> (c', hash, None))"

text \<open>\<open>S3Storer.EncodedObject\<close>.\<close>

definition EncodedObject :: "S3Client \<Rightarrow> string \<Rightarrow> ObjectType \<Rightarrow> Hash \<Rightarrow> error + MemoryObject" where
  "EncodedObject c repoPath t hash =
     (let key = objectKey repoPath hash
      in case GetObject c key of
           Inl err \<Rightarrow> Inl ErrObjectNotFound
         | Inr result \<Rightarrow>
             (case ReadAll c key result of
                Inl err \<Rightarrow> Inl err
              | Inr content \<Rightarrow>
                  let objectType =
                        (case Metadata result ''git-type'' of
                           None \<Rightarrow> t
                         | Some gitType \<Rightarrow>
                             if gitType = ''commit'' then CommitObject
                             else if gitType = ''tree'' then TreeObject
                             else if gitType = ''blob'' then BlobObject
                             else if gitType = ''tag'' then TagObject
                             else t)
                  in Inr \<lparr>mo_type = objectType, mo_size = length content,
                          mo_content = content\<rparr>))"

section \<open>S3Storer: references\<close>

datatype ReferenceType = InvalidReference | HashReference | SymbolicReference

record Reference =
  ref_type :: ReferenceType
  ref_name :: string
  ref_hash :: Hash
  ref_target :: string

definition NewHashReference :: "string \<Rightarrow> Hash \<Rightarrow> Reference" where
  "NewHashReference n h =
     \<lparr>ref_type = HashReference, ref_name = n, ref_hash = h, ref_target = []\<rparr>"

definition NewSymbolicReference :: "string \<Rightarrow> string \<Rightarrow> Reference" where
  "NewSymbolicReference n target =
     \<lparr>ref_type = SymbolicReference, ref_name = n, ref_hash = ZeroHash, ref_target = target\<rparr>"

definition IsRemote :: "string \<Rightarrow> bool" where
  "IsRemote n = HasPrefix n ''refs/remotes/''"

definition IsBranch :: "string \<Rightarrow> bool" where
  "IsBranch n = HasPrefix n ''refs/heads/''"

definition IsTag :: "string \<Rightarrow> bool" where
  "IsTag n = HasPrefix n ''refs/tags/''"

text \<open>
  The key under which \<open>SetReference\<close> (and \<open>RemoveReference\<close>) store a reference, and
  the key from which \<open>Reference\<close> reads it: the value of the local variable \<open>objectKey\<close>
  of each.  \<open>Short\<close> is the engine's \<open>ReferenceName.Short\<close>, taken as a parameter.
\<close>

definition SetReference_key :: "(string \<Rightarrow> string) \<Rightarrow> string \<Rightarrow> string \<Rightarrow> string" where
  "SetReference_key Short repoPath name =
     (if IsRemote name then getObjectKey repoPath (''refs/remotes/'' @ Short name)
      else if IsBranch name then getObjectKey repoPath (''refs/heads/'' @ Short name)
      else if IsTag name then getObjectKey repoPath (''refs/tags/'' @ Short name)
      else getObjectKey repoPath name)"

definition Reference_key :: "(string \<Rightarrow> string) \<Rightarrow> string \<Rightarrow> string \<Rightarrow> string" where
  "Reference_key Short repoPath name =
     (if IsRemote name then getObjectKey repoPath (''refs/remotes/'' @ Short name)
      else if IsBranch name then getObjectKey repoPath (''refs/heads/'' @ Short name)
      else if IsTag name then getObjectKey repoPath (''refs/tags/'' @ Short name)
      else let refName = (if HasPrefix name ''/'' then drop 1 name else name)
           in getObjectKey repoPath refName)"

text \<open>\<open>S3Storer.SetReference\<close>: the client after the call and the returned error.\<close>

definition SetReference ::
  "(string \<Rightarrow> string) \<Rightarrow> S3Client \<Rightarrow> string \<Rightarrow> Reference \<Rightarrow> S3Client \<times> error option" where
  "SetReference Short c repoPath ref =
     (let objectKey = SetReference_key Short repoPath (ref_name ref);
          content =
            (if ref_type ref = HashReference then Hash_String (ref_hash ref)
             else ''ref: '' @ ref_target ref)
      in case PutObject c objectKey \<lparr>Body = content, Metadata = Map.empty\<rparr> of
           Inl err \<Rightarrow> (c, Some err)
         | Inr c' \<Rightarrow> (c', None))"

text \<open>\<open>S3Storer.Reference\<close>.\<close>

definition Reference :: "(string \<Rightarrow> string) \<Rightarrow> S3Client \<Rightarrow> string \<Rightarrow> string \<Rightarrow> error + Reference" where
  "Reference Short c repoPath name =
     (let objectKey = Reference_key Short repoPath name
      in case GetObject c objectKey of
           Inl err \<Rightarrow> Inl ErrReferenceNotFound
         | Inr result \<Rightarrow>
             (case ReadAll c objectKey result of
                Inl err \<Rightarrow> Inl err
              | Inr content \<Rightarrow>
                  let contentStr = TrimSpace content
                  in if HasPrefix contentStr ''ref: ''
                     then Inr (NewSymbolicReference name (TrimPrefix contentStr ''ref: ''))
                     else Inr (NewHashReference name (NewHash contentStr))))"

text \<open>
  \<open>S3Storer.CheckAndSetReference\<close>: the client after the call and the returned error;
  \<open>old\<close> is \<open>None\<close> for a nil pointer.  The two \<open>fmt.Errorf\<close> values are
  \<open>ErrReferenceChanged\<close> ("reference has changed") and \<open>ErrReferenceTypeMismatch\<close>
  ("reference type mismatch").
\<close>

definition CheckAndSetReference ::
  "(string \<Rightarrow> string) \<Rightarrow> S3Client \<Rightarrow> string \<Rightarrow> Reference \<Rightarrow> Reference option
     \<Rightarrow> S3Client \<times> error option" where
  "CheckAndSetReference Short c repoPath new old =
     (case old of
        None \<Rightarrow> SetReference Short c repoPath new
      | Some old \<Rightarrow>
          (case Reference Short c repoPath (ref_name old) of
             Inl err \<Rightarrow> (c, Some err)
           | Inr current \<Rightarrow>
               if ref_type old = HashReference \<and> ref_type current = HashReference
               then (if ref_hash old \<noteq> ref_hash current then (c, Some ErrReferenceChanged)
                     else SetReference Short c repoPath new)
               else if ref_type old = SymbolicReference \<and> ref_type current = SymbolicReference
               then (if ref_target old \<noteq> ref_target current then (c, Some ErrReferenceChanged)
                     else SetReference Short c repoPath new)
               else (c, Some ErrReferenceTypeMismatch)))"

section \<open>S3Storer: configuration\<close>

text \<open>
  \<open>S3Storer.Config\<close>.  The configuration type and its parser belong to the engine:
  \<open>empty_cfg\<close> is \<open>&config.Config{}\<close> and \<open>unmarshal content\<close> is that value after
  \<open>cfg.Unmarshal(content)\<close> together with the parser's error.  The result is the pair
  that the source returns (\<open>None\<close> for \<open>nil\<close>).
\<close>

definition Config ::
  "'cfg \<Rightarrow> (string \<Rightarrow> 'cfg \<times> string option) \<Rightarrow> S3Client \<Rightarrow> string
     \<Rightarrow> 'cfg option \<times> error option" where
  "Config empty_cfg unmarshal c repoPath =
     (let objectKey = getObjectKey repoPath ''config''
      in case GetObject c objectKey of
           Inl err \<Rightarrow> (Some empty_cfg, None)
         | Inr result \<Rightarrow>
             (case ReadAll c objectKey result of
                Inl err \<Rightarrow> (None, Some err)
              | Inr content \<Rightarrow>
                  (case unmarshal content of
                     (cfg, None) \<Rightarrow> (Some cfg, None)
                   | (cfg, Some msg) \<Rightarrow> (Some cfg, Some (ErrParse msg)))))"

section \<open>The transport session drivers\<close>

text \<open>More of package \<open>strings\<close>: \<open>LastIndex\<close>, \<open>Contains\<close>, \<open>Fields\<close>.\<close>

definition LastIndex :: "string \<Rightarrow> string \<Rightarrow> int" where
  "LastIndex s substr =
     (case filter (\<lambda>i. HasPrefix (drop i s) substr) (rev [0..<Suc (length s)]) of
        [] \<Rightarrow> - 1
      | i # _ \<Rightarrow> int i)"

definition Contains :: "string \<Rightarrow> string \<Rightarrow> bool" where
  "Contains s substr = list_ex (\<lambda>i. HasPrefix (drop i s) substr) [0..<Suc (length s)]"

text \<open>\<open>fields_from cur s\<close>: the fields of \<open>s\<close> when \<open>cur\<close> is the part of the current field
  read so far.\<close>

function fields_from :: "string \<Rightarrow> string \<Rightarrow> string list" where
  "fields_from cur s =
     (if s = [] then (if cur = [] then [] else [cur])
      else if leading_space s \<noteq> 0
      then (if cur = [] then [] else [cur]) @ fields_from [] (drop (leading_space s) s)
      else fields_from (cur @ [hd s]) (tl s))"
  by pat_completeness auto
termination
  by (relation "measure (\<lambda>(cur, s). length s)") auto

declare fields_from.simps [simp del]

definition Fields :: "string \<Rightarrow> string list" where
  "Fields s = fields_from [] s"

text \<open>\<open>ExtractRepoPathFromURL\<close> (pkg/common).\<close>

definition ExtractRepoPathFromURL :: "string \<Rightarrow> string \<Rightarrow> string" where
  "ExtractRepoPathFromURL urlPath suffix =
     (let idx = LastIndex urlPath suffix
      in if idx < 0 then []
         else let base = TrimSuffix (take (nat idx) urlPath) ''/'';
                  rel = TrimPrefix base ''/''
              in if rel = [] then [] else rel)"

text \<open>
  The storage behind the drivers is the interface \<open>storage.GitRepositoryStorage\<close>; the
  drivers below take its two methods \<open>RepositoryExists\<close> and \<open>CreateRepository\<close> as
  functions of a storage state \<open>'st\<close>.

  \<open>GetTransportServer\<close> (pkg/common): the error is \<open>fiber.NewError(404, ...)\<close>; on
  success the engine's server and endpoint are built for the normalized path, which
  stands for them here.
\<close>

datatype fiber_error = FiberError nat string

definition GetTransportServer ::
  "('st \<Rightarrow> string \<Rightarrow> bool) \<Rightarrow> 'st \<Rightarrow> string \<Rightarrow> fiber_error + string" where
  "GetTransportServer RepositoryExists str repoPath =
     (let normalizedPath = NormalizeRepoPath repoPath
      in if \<not> RepositoryExists str normalizedPath
         then Inl (FiberError 404 ''repository not found'')
         else Inr normalizedPath)"

text \<open>
  The Git transport engine is outside the repository.  One exchange with it is given by
  the results of its calls: the error of \<open>NewUploadPackSession\<close>/\<open>NewReceivePackSession\<close>,
  the result of \<open>AdvertisedReferences\<close>, the errors of the three \<open>Encode\<close> calls and of
  the request's \<open>Decode\<close>, the result of \<open>UploadPack\<close> (an error or the response bytes) and
  the pair returned by \<open>ReceivePack\<close> (the report's bytes, \<open>None\<close> for a nil report, and
  the error).  An \<open>Encode\<close> that fails writes nothing.
\<close>

record AdvRefs =
  References :: "string list"
  adv_bytes :: string

record Engine =
  session_error :: "string option"
  advertised :: "string + AdvRefs"
  adv_encode_error :: "string option"
  decode_error :: "string option"
  upload_pack :: "string + string"
  resp_encode_error :: "string option"
  receive_pack :: "string option \<times> string option"
  report_encode_error :: "string option"

subsection \<open>HTTP: GitController\<close>

text \<open>
  The outcome of a handler: the response it has set (status and body), a
  \<open>fiber.Error\<close> returned to the framework, or a panic.
\<close>

datatype http_result = Response nat string | Returned fiber_error | HandlerPanic

definition io_error_text :: "io_error \<Rightarrow> string" where
  "io_error_text e = ''write failed''"

text \<open>\<open>GitController.InfoRefs\<close>; \<open>service\<close> is the query parameter and \<open>path\<close> the
  request path.  The two branches of the \<open>switch\<close> differ in the content type and in the
  kind of session only.\<close>

definition InfoRefs ::
  "('st \<Rightarrow> string \<Rightarrow> bool) \<Rightarrow> 'st \<Rightarrow> Engine \<Rightarrow> string \<Rightarrow> string \<Rightarrow> http_result" where
  "InfoRefs RepositoryExists str eng service path =
     (if service \<noteq> ''git-upload-pack'' \<and> service \<noteq> ''git-receive-pack''
      then Response 400 ''invalid service parameter''
      else
        let repoPath = ExtractRepoPathFromURL path ''/info/refs''
        in if repoPath = [] then Response 404 ''Not Found''
           else
             (case GetTransportServer RepositoryExists str repoPath of
                Inl err \<Rightarrow> Response 500 ''failed to get transport server''
              | Inr srv \<Rightarrow>
                  (case session_error eng of
                     Some e \<Rightarrow> Response 500 e
                   | None \<Rightarrow>
                       (case advertised eng of
                          Inl e \<Rightarrow> Response 500 e
                        | Inr adv \<Rightarrow>
                            (case WriteServiceAdvertisement \<lparr>written = [], budget = None\<rparr> service of
                               (w, Some err) \<Rightarrow> Response 500 (io_error_text err)
                             | (w, None) \<Rightarrow>
                                 (case adv_encode_error eng of
                                    Some e \<Rightarrow> Response 500 e
                                  | None \<Rightarrow> Response 200 (written w @ adv_bytes adv)))))))"

text \<open>\<open>GitController.HandleReceivePack\<close>.\<close>

definition HandleReceivePack ::
  "('st \<Rightarrow> string \<Rightarrow> bool) \<Rightarrow> 'st \<Rightarrow> Engine \<Rightarrow> string \<Rightarrow> http_result" where
  "HandleReceivePack RepositoryExists str eng path =
     (let repoPath = ExtractRepoPathFromURL path ''/git-receive-pack''
      in if repoPath = [] then Response 404 ''Not Found''
         else
           (case GetTransportServer RepositoryExists str repoPath of
              Inl err \<Rightarrow> Returned err
            | Inr srv \<Rightarrow>
                (case session_error eng of
                   Some e \<Rightarrow> Response 500 e
                 | None \<Rightarrow>
                     (case decode_error eng of
                        Some e \<Rightarrow> Response 400 e
                      | None \<Rightarrow>
                          (case receive_pack eng of
                             (report, Some err) \<Rightarrow>
                               (case report of
                                  None \<Rightarrow> HandlerPanic
                                | Some bytes \<Rightarrow>
                                    Response 200
                                      (if report_encode_error eng = None then bytes else []))
                           | (report, None) \<Rightarrow>
                               (case report of
                                  None \<Rightarrow> HandlerPanic
                                | Some bytes \<Rightarrow>
                                    (case report_encode_error eng of
                                       Some e \<Rightarrow> Response 500 e
                                     | None \<Rightarrow> Response 200 bytes)))))))"

subsection \<open>SSH: SSHConfig\<close>

text \<open>What the client of an SSH session sees: the bytes on the channel, the bytes on
  the error stream, and the exit status passed to \<open>Exit\<close>.\<close>

record Session =
  stdout :: string
  stderr :: string
  exit_status :: "int option"

definition newline :: string where
  "newline = [CHR 0x0A]"

text \<open>The decoder's message \<open>pkt-line 1: missing 'want ' prefix\<close> that
  \<open>SSHConfig.handleUploadPack\<close> compares with.\<close>

definition missing_want_msg :: string where
  "missing_want_msg =
     ''pkt-line 1: missing '' @ [CHR 0x27] @ ''want '' @ [CHR 0x27] @ '' prefix''"

text \<open>\<open>SSHConfig.parseGitCommand\<close>.\<close>

definition SSHConfig_parseGitCommand :: "string \<Rightarrow> string \<times> string" where
  "SSHConfig_parseGitCommand cmd =
     (let cmd = TrimSpace cmd
      in if cmd = [] then ([], [])
         else if HasPrefix cmd ''git-upload-pack''
         then (''git-upload-pack'', TrimSpace (TrimPrefix cmd ''git-upload-pack''))
         else if HasPrefix cmd ''git-receive-pack''
         then (''git-receive-pack'', TrimSpace (TrimPrefix cmd ''git-receive-pack''))
         else ([], []))"

text \<open>\<open>SSHConfig.repoPathFromSSHArg\<close>; the cutset is the two quote characters.\<close>

definition repoPathFromSSHArg :: "string \<Rightarrow> string" where
  "repoPathFromSSHArg arg =
     (let arg = TrimSpace arg;
          arg = Trim arg [CHR 0x27, CHR 0x22];
          arg = TrimPrefix arg '':'';
          arg = (if CHR '':'' \<in> set arg then drop 1 (dropWhile (\<lambda>c. c \<noteq> CHR '':'') arg) else arg);
          arg = TrimPrefix arg ''/''
      in if arg = [] then [] else NormalizeRepoPath arg)"

text \<open>\<open>SSHConfig.handleUploadPack\<close>.\<close>

definition SSHConfig_handleUploadPack :: "Engine \<Rightarrow> Session" where
  "SSHConfig_handleUploadPack eng =
     (case session_error eng of
        Some e \<Rightarrow>
          \<lparr>stdout = [], stderr = ''Upload pack session error: '' @ e @ newline,
           exit_status = Some 1\<rparr>
      | None \<Rightarrow>
          (case advertised eng of
             Inl e \<Rightarrow>
               \<lparr>stdout = [], stderr = ''Advertised references error: '' @ e @ newline,
                exit_status = Some 1\<rparr>
           | Inr adv \<Rightarrow>
               (case adv_encode_error eng of
                  Some e \<Rightarrow>
                    \<lparr>stdout = [], stderr = ''Failed to send references: '' @ e @ newline,
                     exit_status = Some 1\<rparr>
                | None \<Rightarrow>
                    (case decode_error eng of
                       Some e \<Rightarrow>
                         (if e = missing_want_msg
                          then \<lparr>stdout = adv_bytes adv, stderr = [], exit_status = Some 0\<rparr>
                          else \<lparr>stdout = adv_bytes adv,
                                stderr = ''Request decode error: '' @ e @ newline,
                                exit_status = Some 0\<rparr>)
                     | None \<Rightarrow>
                         (case upload_pack eng of
                            Inl e \<Rightarrow>
                              \<lparr>stdout = adv_bytes adv,
                               stderr = ''Upload pack error: '' @ e @ newline,
                               exit_status = Some 1\<rparr>
                          | Inr resp \<Rightarrow>
                              (case resp_encode_error eng of
                                 Some e \<Rightarrow>
                                   \<lparr>stdout = adv_bytes adv,
                                    stderr = ''Response encode error: '' @ e @ newline,
                                    exit_status = Some 1\<rparr>
                               | None \<Rightarrow>
                                   \<lparr>stdout = adv_bytes adv @ resp, stderr = [],
                                    exit_status = Some 0\<rparr>))))))"

text \<open>\<open>SSHConfig.handleReceivePack\<close>.\<close>

definition SSHConfig_handleReceivePack :: "Engine \<Rightarrow> Session" where
  "SSHConfig_handleReceivePack eng =
     (case session_error eng of
        Some e \<Rightarrow>
          \<lparr>stdout = [], stderr = ''Receive pack session error: '' @ e @ newline,
           exit_status = Some 1\<rparr>
      | None \<Rightarrow>
          (case advertised eng of
             Inl e \<Rightarrow>
               \<lparr>stdout = [], stderr = ''Advertised references error: '' @ e @ newline,
                exit_status = Some 1\<rparr>
           | Inr adv \<Rightarrow>
               (case adv_encode_error eng of
                  Some e \<Rightarrow>
                    \<lparr>stdout = [], stderr = ''Failed to send references: '' @ e @ newline,
                     exit_status = Some 1\<rparr>
                | None \<Rightarrow>
                    (case decode_error eng of
                       Some e \<Rightarrow>
                         \<lparr>stdout = adv_bytes adv,
                          stderr = ''Request decode error: '' @ e @ newline,
                          exit_status = Some 1\<rparr>
                     | None \<Rightarrow>
                         (case receive_pack eng of
                            (report, Some err) \<Rightarrow>
                              (case report of
                                 Some bytes \<Rightarrow>
                                   \<lparr>stdout = adv_bytes adv @
                                      (if report_encode_error eng = None then bytes else []),
                                    stderr = [], exit_status = Some 1\<rparr>
                               | None \<Rightarrow>
                                   \<lparr>stdout = adv_bytes adv,
                                    stderr = ''Receive pack error: '' @ err @ newline,
                                    exit_status = Some 1\<rparr>)
                          | (report, None) \<Rightarrow>
                              (case report of
                                 Some bytes \<Rightarrow>
                                   (case report_encode_error eng of
                                      Some e \<Rightarrow>
                                        \<lparr>stdout = adv_bytes adv,
                                         stderr = ''Report encode error: '' @ e @ newline,
                                         exit_status = Some 1\<rparr>
                                    | None \<Rightarrow>
                                        \<lparr>stdout = adv_bytes adv @ bytes, stderr = [],
                                         exit_status = Some 0\<rparr>)
                               | None \<Rightarrow>
                                   \<lparr>stdout = adv_bytes adv, stderr = [],
                                    exit_status = Some 0\<rparr>))))))"

text \<open>The part of \<open>SSHConfig.handleSSHSession\<close> from "Get transport server" on.\<close>

definition SSHConfig_serve ::
  "('st \<Rightarrow> string \<Rightarrow> bool) \<Rightarrow> 'st \<Rightarrow> Engine \<Rightarrow> string \<Rightarrow> string \<Rightarrow> Session" where
  "SSHConfig_serve RepositoryExists str eng service repoPath =
     (case GetTransportServer RepositoryExists str repoPath of
        Inl (FiberError code msg) \<Rightarrow>
          \<lparr>stdout = [], stderr = ''Transport server error: '' @ msg @ newline,
           exit_status = Some 1\<rparr>
      | Inr srv \<Rightarrow>
          if service = ''git-upload-pack'' then SSHConfig_handleUploadPack eng
          else if service = ''git-receive-pack'' then SSHConfig_handleReceivePack eng
          else \<lparr>stdout = [], stderr = ''Unsupported service: '' @ service @ newline,
                exit_status = Some 1\<rparr>)"

text \<open>\<open>SSHConfig.handleSSHSession\<close>: what the client sees, and the storage afterwards.\<close>

definition SSHConfig_handleSSHSession ::
  "('st \<Rightarrow> string \<Rightarrow> bool) \<Rightarrow> ('st \<Rightarrow> string \<Rightarrow> 'st \<times> string option) \<Rightarrow> 'st \<Rightarrow> Engine
     \<Rightarrow> string \<Rightarrow> Session \<times> 'st" where
  "SSHConfig_handleSSHSession RepositoryExists CreateRepository str eng rawCommand =
     (case SSHConfig_parseGitCommand rawCommand of
        (service, repoArg) \<Rightarrow>
          if service = [] \<or> repoArg = []
          then (\<lparr>stdout = [], stderr = ''Invalid Git command'' @ newline,
                 exit_status = Some 1\<rparr>, str)
          else
            let repoPath = repoPathFromSSHArg repoArg
            in if repoPath = []
               then (\<lparr>stdout = [], stderr = ''Invalid repository path'' @ newline,
                      exit_status = Some 1\<rparr>, str)
               else if \<not> RepositoryExists str repoPath \<and> service = ''git-receive-pack''
               then
                 (case CreateRepository str repoPath of
                    (str', Some err) \<Rightarrow>
                      (\<lparr>stdout = [],
                        stderr = ''Failed to create repository: '' @ err @ newline,
                        exit_status = Some 1\<rparr>, str')
                  | (str', None) \<Rightarrow>
                      (SSHConfig_serve RepositoryExists str' eng service repoPath, str'))
               else if \<not> RepositoryExists str repoPath
               then (\<lparr>stdout = [], stderr = ''Repository not found'' @ newline,
                      exit_status = Some 1\<rparr>, str)
               else (SSHConfig_serve RepositoryExists str eng service repoPath, str))"

subsection \<open>SSH: GitSSHServer\<close>

text \<open>\<open>GitSSHServer.extractRepoPath\<close> and \<open>GitSSHServer.parseGitCommand\<close>.\<close>

definition extractRepoPath :: "string \<Rightarrow> string" where
  "extractRepoPath arg =
     (let arg = Trim arg [CHR 0x27, CHR 0x22];
          arg = TrimPrefix arg ''/''
      in if Contains arg '':''
         then (let parts = Split arg CHR '':''
               in if length parts > 1 then parts ! 1 else arg)
         else arg)"

definition GitSSHServer_parseGitCommand :: "string \<Rightarrow> string \<times> string" where
  "GitSSHServer_parseGitCommand cmd =
     (let cmd = TrimSpace cmd
      in if cmd = [] then ([], [])
         else let parts = Fields cmd
              in if length parts < 2 then ([], [])
                 else let service = hd parts;
                          repoArg = Join (tl parts) '' '';
                          repoPath = extractRepoPath repoArg;
                          repoPath = NormalizeRepoPath repoPath
                      in (service, repoPath))"

text \<open>
  \<open>GitSSHServer.handleUploadPack\<close> and \<open>GitSSHServer.handleReceivePack\<close>: the bytes
  written to the channel and the returned error.  The two texts searched for in the
  decoder's message are \<open>missing 'want' prefix\<close> and \<open>EOF\<close>.
\<close>

definition missing_want_substr :: string where
  "missing_want_substr = ''missing '' @ [CHR 0x27] @ ''want'' @ [CHR 0x27] @ '' prefix''"

definition GitSSHServer_handleUploadPack ::
  "('st \<Rightarrow> string \<Rightarrow> bool) \<Rightarrow> 'st \<Rightarrow> Engine \<Rightarrow> string \<Rightarrow> string \<times> string option" where
  "GitSSHServer_handleUploadPack RepositoryExists str eng repoPath =
     (case GetTransportServer RepositoryExists str repoPath of
        Inl (FiberError code msg) \<Rightarrow> ([], Some msg)
      | Inr srv \<Rightarrow>
          (case session_error eng of
             Some e \<Rightarrow> ([], Some e)
           | None \<Rightarrow>
               (case advertised eng of
                  Inl e \<Rightarrow> ([], Some e)
                | Inr adv \<Rightarrow>
                    (case adv_encode_error eng of
                       Some e \<Rightarrow> ([], Some e)
                     | None \<Rightarrow>
                         if length (References adv) = 0 then (adv_bytes adv, None)
                         else
                           (case decode_error eng of
                              Some e \<Rightarrow>
                                (if Contains e missing_want_substr \<or> Contains e ''EOF''
                                 then (adv_bytes adv, None)
                                 else (adv_bytes adv, Some e))
                            | None \<Rightarrow>
                                (case upload_pack eng of
                                   Inl e \<Rightarrow> (adv_bytes adv, Some e)
                                 | Inr resp \<Rightarrow>
                                     (case resp_encode_error eng of
                                        Some e \<Rightarrow> (adv_bytes adv, Some e)
                                      | None \<Rightarrow> (adv_bytes adv @ resp, None))))))))"

definition GitSSHServer_handleReceivePack ::
  "('st \<Rightarrow> string \<Rightarrow> bool) \<Rightarrow> 'st \<Rightarrow> Engine \<Rightarrow> string \<Rightarrow> string \<times> string option" where
  "GitSSHServer_handleReceivePack RepositoryExists str eng repoPath =
     (case GetTransportServer RepositoryExists str repoPath of
        Inl (FiberError code msg) \<Rightarrow> ([], Some msg)
      | Inr srv \<Rightarrow>
          (case session_error eng of
             Some e \<Rightarrow> ([], Some e)
           | None \<Rightarrow>
               (case advertised eng of
                  Inl e \<Rightarrow> ([], Some e)
                | Inr adv \<Rightarrow>
                    (case adv_encode_error eng of
                       Some e \<Rightarrow> ([], Some e)
                     | None \<Rightarrow>
                         (case decode_error eng of
                            Some e \<Rightarrow> (adv_bytes adv, Some e)
                          | None \<Rightarrow>
                              (case receive_pack eng of
                                 (report, Some err) \<Rightarrow> (adv_bytes adv, Some err)
                               | (report, None) \<Rightarrow>
                                   (case report of
                                      Some bytes \<Rightarrow>
                                        (adv_bytes adv @
                                           (if report_encode_error eng = None then bytes else []),
                                         None)
                                    | None \<Rightarrow> (adv_bytes adv, None))))))))"

text \<open>
  The calls a handler makes on the SSH channel and on the request, in order:
  \<open>req.Reply\<close>, a write of bytes, the \<open>exit-status\<close> request with its \<open>uint32\<close> value,
  \<open>CloseWrite\<close>, \<open>time.Sleep\<close> (milliseconds), \<open>Close\<close>, and \<open>Reject\<close> of a new channel.
\<close>

datatype chan_event =
  Reply bool | Data string | ExitStatus "32 word" | CloseWrite | Sleep nat | Close | Reject

datatype outcome = Done | Panicked

text \<open>\<open>GitSSHServer.sendExitStatusAndClose\<close>; \<open>has_CloseWrite\<close> is the result of the
  type assertion on the channel.  Errors of the calls are only logged.\<close>

definition sendExitStatusAndClose :: "bool \<Rightarrow> int \<Rightarrow> chan_event list" where
  "sendExitStatusAndClose has_CloseWrite status =
     (if status = 0
      then (if has_CloseWrite then [CloseWrite] else []) @ [Sleep 200]
      else [ExitStatus (word_of_int status)] @
           (if has_CloseWrite then [CloseWrite] else []) @
           [Sleep 100, Close])"

record Request =
  req_Type :: string
  WantReply :: bool
  Payload :: string

text \<open>\<open>GitSSHServer.handleExecRequest\<close>.  \<open>req.Payload[4:]\<close> panics on a payload of
  fewer than four bytes.\<close>

definition handleExecRequest ::
  "('st \<Rightarrow> string \<Rightarrow> bool) \<Rightarrow> 'st \<Rightarrow> Engine \<Rightarrow> bool \<Rightarrow> Request
     \<Rightarrow> chan_event list \<times> outcome" where
  "handleExecRequest RepositoryExists str eng has_CloseWrite req =
     (if \<not> WantReply req then (sendExitStatusAndClose has_CloseWrite 1, Done)
      else if length (Payload req) < 4 then ([], Panicked)
      else
        let command = drop 4 (Payload req)
        in case GitSSHServer_parseGitCommand command of
             (service, repoPath) \<Rightarrow>
               if service = []
               then (Reply False # sendExitStatusAndClose has_CloseWrite 1, Done)
               else
                 let (sent, exitCode) =
                       (if service = ''git-upload-pack''
                        then (case GitSSHServer_handleUploadPack RepositoryExists str eng repoPath of
                                (bytes, Some err) \<Rightarrow> (bytes, 1)
                              | (bytes, None) \<Rightarrow> (bytes, 0))
                        else if service = ''git-receive-pack''
                        then (case GitSSHServer_handleReceivePack RepositoryExists str eng repoPath of
                                (bytes, Some err) \<Rightarrow> (bytes, 1)
                              | (bytes, None) \<Rightarrow> (bytes, 0))
                        else ([], 1))
                 in (Reply True # (if sent = [] then [] else [Data sent]) @
                       sendExitStatusAndClose has_CloseWrite exitCode, Done))"

text \<open>
  \<open>GitSSHServer.handleChannel\<close>: the loop over the channel's requests, and around it
  the channel-type check, \<open>Accept\<close> and the deferred \<open>channel.Close()\<close>, which also runs
  when the handler panics.
\<close>

fun handleRequests ::
  "('st \<Rightarrow> string \<Rightarrow> bool) \<Rightarrow> 'st \<Rightarrow> Engine \<Rightarrow> bool \<Rightarrow> Request list
     \<Rightarrow> chan_event list \<times> outcome" where
  "handleRequests RepositoryExists str eng has_CloseWrite [] = ([], Done)"
| "handleRequests RepositoryExists str eng has_CloseWrite (req # reqs) =
     (if req_Type req = ''exec''
      then handleExecRequest RepositoryExists str eng has_CloseWrite req
      else case handleRequests RepositoryExists str eng has_CloseWrite reqs of
             (evs, out) \<Rightarrow> ((if WantReply req then [Reply False] else []) @ evs, out))"

definition handleChannel ::
  "('st \<Rightarrow> string \<Rightarrow> bool) \<Rightarrow> 'st \<Rightarrow> Engine \<Rightarrow> bool \<Rightarrow> string \<Rightarrow> bool \<Rightarrow> Request list
     \<Rightarrow> chan_event list \<times> outcome" where
  "handleChannel RepositoryExists str eng has_CloseWrite channelType accept_ok reqs =
     (if channelType \<noteq> ''session'' then ([Reject], Done)
      else if \<not> accept_ok then ([], Done)
      else case handleRequests RepositoryExists str eng has_CloseWrite reqs of
             (evs, out) \<Rightarrow> (evs @ [Close], out))"

section \<open>Sample inputs\<close>

text \<open>A client on which no request fails, over the given bucket contents.\<close>

definition demo_client :: "(string \<rightharpoonup> S3Object) \<Rightarrow> S3Client" where
  "demo_client objs =
     \<lparr>objects = objs, get_fails = (\<lambda>k. False), put_fails = (\<lambda>k. False),
      read_fails = (\<lambda>k. False)\<rparr>"

text \<open>A stand-in for the engine's configuration parser: a list of lines, and an error
  for content that does not open a section.\<close>

definition demo_unmarshal :: "string \<Rightarrow> string list \<times> string option" where
  "demo_unmarshal content =
     (if HasPrefix content ''['' then ([content], None) else ([], Some ''malformed line''))"

text \<open>A stand-in for the engine's hasher: 20 bytes computed from type and content.\<close>

definition demo_hasher :: "ObjectType \<Rightarrow> string \<Rightarrow> Hash" where
  "demo_hasher t content =
     replicate 18 0xAB @ [word_of_nat (length (ObjectType_String t)), word_of_nat (length content)]"

text \<open>A stand-in for the engine's \<open>Short\<close>: the name without its namespace prefix.\<close>

definition demo_Short :: "string \<Rightarrow> string" where
  "demo_Short n =
     (if IsBranch n then TrimPrefix n ''refs/heads/''
      else if IsTag n then TrimPrefix n ''refs/tags/''
      else if IsRemote n then TrimPrefix n ''refs/remotes/''
      else n)"

text \<open>Two object hashes.\<close>

definition hash_A :: Hash where
  "hash_A = replicate 20 0x1A"

definition hash_B :: Hash where
  "hash_B = replicate 20 0x2B"

text \<open>A bucket in which the branch \<open>refs/heads/main\<close> of \<open>demo.git\<close> holds \<open>hash_A\<close>.\<close>

definition client_main_A :: S3Client where
  "client_main_A =
     demo_client [''repositories/demo.git/refs/heads/main'' \<mapsto>
       \<lparr>Body = Hash_String hash_A, Metadata = Map.empty\<rparr>]"

text \<open>An in-memory storage for the drivers: the list of the names of its repositories.\<close>

definition mem_RepositoryExists :: "string list \<Rightarrow> string \<Rightarrow> bool" where
  "mem_RepositoryExists str repoPath = (repoPath \<in> set str)"

definition mem_CreateRepository :: "string list \<Rightarrow> string \<Rightarrow> string list \<times> string option" where
  "mem_CreateRepository str repoPath =
     (if mem_RepositoryExists str repoPath then (str, Some ''repository already exists'')
      else (repoPath # str, None))"

text \<open>An exchange in which every call of the engine succeeds.\<close>

definition demo_engine :: Engine where
  "demo_engine =
     \<lparr>session_error = None,
      advertised = Inr \<lparr>References = [''refs/heads/main''], adv_bytes = ''<refs>''\<rparr>,
      adv_encode_error = None,
      decode_error = None,
      upload_pack = Inr ''<pack>'',
      resp_encode_error = None,
      receive_pack = (Some ''<report>'', None),
      report_encode_error = None\<rparr>"

text \<open>The payload of an \<open>exec\<close> request: a four-byte length and the command line.\<close>

definition exec_request :: "string \<Rightarrow> Request" where
  "exec_request command =
     \<lparr>req_Type = ''exec'', WantReply = True,
      Payload = [CHR 0x00, CHR 0x00, CHR 0x00, char_of (length command)] @ command\<rparr>"

definition quote :: string where
  "quote = [CHR 0x27]"

text \<open>Some \<open>exit-status\<close> request is sent after a \<open>Close\<close> of the channel.\<close>

fun exit_status_after_close :: "chan_event list \<Rightarrow> bool" where
  "exit_status_after_close [] = False"
| "exit_status_after_close (Close # evs) =
     ((\<exists>v. ExitStatus v \<in> set evs) \<or> exit_status_after_close evs)"
| "exit_status_after_close (ev # evs) = exit_status_after_close evs"

section \<open>Evaluation lemmas\<close>

lemma leading_space_Cons:
  "c \<notin> set ascii_space \<Longrightarrow> c \<notin> {CHR 0xC2, CHR 0xE1, CHR 0xE2, CHR 0xE3} \<Longrightarrow>
   leading_space (c # s) = 0"
  by (auto simp add: leading_space_def space_runes_def ascii_space_def HasPrefix_def)

lemma Split_not_Nil [simp]: "Split s sep \<noteq> []"
  by (induction s) (auto split: list.splits)

lemma Split_append_sep: "Split (xs @ sep # ys) sep = Split xs sep @ Split ys sep"
  by (induction xs) (auto split: list.splits)

lemma clean_elems_drop_empty:
  "clean_elems rooted out (as @ [] # bs) = clean_elems rooted out (as @ bs)"
  by (induction as arbitrary: out) (auto split: list.splits)

lemma Clean_double_slash:
  assumes "a \<noteq> []"
  shows "Clean (a @ ''/'' @ ''/'' @ b) = Clean (a @ ''/'' @ b)"
proof -
  have s1: "Split (a @ ''/'' @ ''/'' @ b) CHR ''/'' = Split a CHR ''/'' @ [] # Split b CHR ''/''"
    using Split_append_sep [of a "CHR ''/''" "''/'' @ b"] by simp
  have s2: "Split (a @ ''/'' @ b) CHR ''/'' = Split a CHR ''/'' @ Split b CHR ''/''"
    using Split_append_sep [of a "CHR ''/''" b] by simp
  have hd: "hd (a @ ''/'' @ ''/'' @ b) = hd (a @ ''/'' @ b)"
    using assms by simp
  show ?thesis
    unfolding Clean_def s1 s2 hd clean_elems_drop_empty using assms by simp
qed

lemma path_Join_leading_slash:
  "a \<noteq> [] \<Longrightarrow> path_Join a (CHR ''/'' # b) = path_Join a b"
  using Clean_double_slash [of a b] by (simp add: path_Join_def)

lemma fromHexChar_hexdigits_upto:
  "list_all (\<lambda>n. fromHexChar (hexdigits ! n) = Some n) [0..<16]"
  by code_simp

lemma fromHexChar_hexdigits: "n < 16 \<Longrightarrow> fromHexChar (hexdigits ! n) = Some n"
  using fromHexChar_hexdigits_upto by (simp add: list_all_iff)

lemma hex_decode_Hash_String: "hex_decode (Hash_String h) = h"
proof (induction h)
  case Nil
  show ?case by (simp add: Hash_String_def)
next
  case (Cons b h)
  have "unat b < 256"
    using unsigned_less [of b] by simp
  then have d: "unat b div 16 < 16" "unat b mod 16 < 16"
    by arith+
  show ?case
    using Cons d
    by (simp add: Hash_String_def byte_hex_def fromHexChar_hexdigits)
qed

lemma NewHash_Hash_String: "length h = 20 \<Longrightarrow> NewHash (Hash_String h) = h"
  by (simp add: NewHash_def hex_decode_Hash_String)

lemma Reference_key_eq:
  "repoPath \<noteq> [] \<Longrightarrow> Reference_key Short repoPath n = SetReference_key Short repoPath n"
proof -
  assume r: "repoPath \<noteq> []"
  have "HasPrefix n ''/'' \<Longrightarrow> n = CHR ''/'' # drop 1 n"
    by (cases n) (auto simp add: HasPrefix_def)
  then have "HasPrefix n ''/'' \<Longrightarrow> path_Join repoPath (drop 1 n) = path_Join repoPath n"
    using path_Join_leading_slash [OF r, of "drop 1 n"] by simp
  then show ?thesis
    by (simp add: Reference_key_def SetReference_key_def getObjectKey_def Let_def)
qed

lemma Hash_String_hexdigits: "set (Hash_String h) \<subseteq> set hexdigits"
proof -
  have "\<And>b::8 word. set (byte_hex b) \<subseteq> set hexdigits"
  proof -
    fix b :: "8 word"
    have "unat b < 256" using unsigned_less [of b] by simp
    then have "unat b div 16 < length hexdigits" "unat b mod 16 < length hexdigits"
      by (simp_all add: hexdigits_def)
    then show "set (byte_hex b) \<subseteq> set hexdigits"
      unfolding byte_hex_def using nth_mem by (metis empty_subsetI insert_subset list.simps(15) list.set(1))
  qed
  then show ?thesis by (auto simp add: Hash_String_def)
qed

lemma leading_space_Nil: "leading_space [] = 0"
  by (simp add: leading_space_def space_runes_def ascii_space_def HasPrefix_def)

lemma trailing_space_Nil: "trailing_space [] = 0"
  by (simp add: trailing_space_def space_runes_def ascii_space_def HasSuffix_def)

lemma leading_space_hexdigit: "c \<in> set hexdigits \<Longrightarrow> leading_space (c # s) = 0"
  by (rule leading_space_Cons) (auto simp add: hexdigits_def ascii_space_def)

lemma HasSuffix_last: "HasSuffix s r \<Longrightarrow> r \<noteq> [] \<Longrightarrow> last s = last r"
  by (metis HasSuffix_def append_take_drop_id last_appendR)

lemma trailing_space_hexdigit:
  assumes "c \<in> set hexdigits"
  shows "trailing_space (s @ [c]) = 0"
proof -
  have "\<forall>r \<in> set space_runes. r \<noteq> [] \<and> last r \<notin> set hexdigits"
    by (simp add: space_runes_def ascii_space_def hexdigits_def)
  then have "\<forall>r \<in> set space_runes. \<not> HasSuffix (s @ [c]) r"
    using assms HasSuffix_last [of "s @ [c]"] by fastforce
  then have "filter (\<lambda>r. HasSuffix (s @ [c]) r) space_runes = []"
    by (simp add: filter_empty_conv)
  then show ?thesis by (simp add: trailing_space_def)
qed

lemma TrimSpace_hex: "set s \<subseteq> set hexdigits \<Longrightarrow> TrimSpace s = s"
proof -
  assume h: "set s \<subseteq> set hexdigits"
  have l: "leading_space s = 0"
    using h by (cases s) (auto simp add: leading_space_Nil leading_space_hexdigit)
  have t: "trailing_space s = 0"
    using h by (cases s rule: rev_cases) (auto simp add: trailing_space_Nil trailing_space_hexdigit)
  show ?thesis
    unfolding TrimSpace_def
    by (subst TrimLeftSpace.simps, simp add: l, subst TrimRightSpace.simps, simp add: t)
qed

lemma hex_not_ref: "set s \<subseteq> set hexdigits \<Longrightarrow> \<not> HasPrefix s ''ref: ''"
  by (cases s) (auto simp add: HasPrefix_def hexdigits_def)

lemma SetReference_then_Reference:
  assumes repo: "repoPath \<noteq> []"
    and wf: "new = NewHashReference n h \<and> length h = 20
             \<or> new = NewSymbolicReference n t \<and> TrimSpace (''ref: '' @ t) = ''ref: '' @ t"
    and ok: "\<not> put_fails c (SetReference_key Short repoPath n)"
            "\<not> get_fails c (SetReference_key Short repoPath n)"
            "\<not> read_fails c (SetReference_key Short repoPath n)"
  shows "snd (SetReference Short c repoPath new) = None
         \<and> Reference Short (fst (SetReference Short c repoPath new)) repoPath n = Inr new"
proof -
  let ?k = "SetReference_key Short repoPath n"
  have name: "ref_name new = n"
    using wf by (auto simp add: NewHashReference_def NewSymbolicReference_def)
  let ?content = "if ref_type new = HashReference then Hash_String (ref_hash new)
                  else ''ref: '' @ ref_target new"
  let ?c' = "c\<lparr>objects := (objects c)(?k \<mapsto> \<lparr>Body = ?content, Metadata = Map.empty\<rparr>)\<rparr>"
  have set: "SetReference Short c repoPath new = (?c', None)"
    using ok name by (simp add: SetReference_def PutObject_def Let_def)
  have get: "Reference Short ?c' repoPath n = Inr new"
    using wf
  proof
    assume a: "new = NewHashReference n h \<and> length h = 20"
    show ?thesis
      using a ok
      by (simp add: NewHashReference_def Reference_def Reference_key_eq [OF repo]
            GetObject_def ReadAll_def TrimSpace_hex [OF Hash_String_hexdigits]
            hex_not_ref [OF Hash_String_hexdigits] NewHash_Hash_String)
  next
    assume a: "new = NewSymbolicReference n t \<and> TrimSpace (''ref: '' @ t) = ''ref: '' @ t"
    show ?thesis
      using a ok
      by (simp add: NewSymbolicReference_def Reference_def Reference_key_eq [OF repo]
            GetObject_def ReadAll_def HasPrefix_def TrimPrefix_def)
  qed
  show ?thesis using set get by simp
qed

section \<open>Compare-and-swap of references on the remote backend\<close>

text \<open>
  C1 (as the code has it).  Let \<open>new\<close> and \<open>old\<close> be references of one name \<open>n\<close> in a
  repository with a non-empty key prefix, \<open>new\<close> a direct reference to a 20-byte hash or a
  symbolic reference whose stored line \<open>ref: target\<close> is unchanged by \<open>TrimSpace\<close>, and
  let the bucket accept a write to the key of \<open>n\<close>.
  \<^item> When the reference currently holds a value equal to \<open>old\<close> (by hash for two direct
    references, by target for two symbolic ones), \<open>CheckAndSetReference new old\<close> returns
    no error and afterwards the reference reads as \<open>new\<close>.
  \<^item> When it holds a value that differs from \<open>old\<close>, or one of the other type, the call
    returns "reference has changed" or "reference type mismatch" and the bucket is as
    before.
  \<^item> When the reference cannot be read, the call with an \<open>old\<close> returns the read's error
    and the bucket is as before.
  \<^item> When \<open>old\<close> is nil, nothing is compared: the call is \<open>SetReference new\<close>, which
    writes \<open>new\<close> whether or not the reference exists.
\<close>

theorem CheckAndSetReference_compare_and_swap:
  assumes repo: "repoPath \<noteq> []"
    and names: "ref_name old = n"
    and wf: "new = NewHashReference n h \<and> length h = 20
             \<or> new = NewSymbolicReference n t \<and> TrimSpace (''ref: '' @ t) = ''ref: '' @ t"
    and put: "\<not> put_fails c (SetReference_key Short repoPath n)"
  shows
    "(\<forall>cur. Reference Short c repoPath n = Inr cur
         \<and> (ref_type old = HashReference \<and> ref_type cur = HashReference
               \<and> ref_hash old = ref_hash cur
             \<or> ref_type old = SymbolicReference \<and> ref_type cur = SymbolicReference
               \<and> ref_target old = ref_target cur) \<longrightarrow>
         snd (CheckAndSetReference Short c repoPath new (Some old)) = None
         \<and> Reference Short (fst (CheckAndSetReference Short c repoPath new (Some old))) repoPath n
             = Inr new)
     \<and> (\<forall>cur. Reference Short c repoPath n = Inr cur
         \<and> \<not> (ref_type old = HashReference \<and> ref_type cur = HashReference
               \<and> ref_hash old = ref_hash cur
             \<or> ref_type old = SymbolicReference \<and> ref_type cur = SymbolicReference
               \<and> ref_target old = ref_target cur) \<longrightarrow>
         CheckAndSetReference Short c repoPath new (Some old) = (c, Some ErrReferenceChanged)
         \<or> CheckAndSetReference Short c repoPath new (Some old) = (c, Some ErrReferenceTypeMismatch))
     \<and> (\<forall>err. Reference Short c repoPath n = Inl err \<longrightarrow>
         CheckAndSetReference Short c repoPath new (Some old) = (c, Some err))
     \<and> CheckAndSetReference Short c repoPath new None = SetReference Short c repoPath new
     \<and> (\<not> get_fails c (SetReference_key Short repoPath n)
         \<and> \<not> read_fails c (SetReference_key Short repoPath n) \<longrightarrow>
         snd (CheckAndSetReference Short c repoPath new None) = None
         \<and> Reference Short (fst (CheckAndSetReference Short c repoPath new None)) repoPath n
             = Inr new)"
proof -
  have ok_of_cur: "\<And>cur. Reference Short c repoPath n = Inr cur \<Longrightarrow>
      \<not> get_fails c (SetReference_key Short repoPath n)
      \<and> \<not> read_fails c (SetReference_key Short repoPath n)"
    by (auto simp add: Reference_def Reference_key_eq [OF repo] GetObject_def ReadAll_def Let_def
          split: if_splits option.splits sum.splits)
  have rt: "\<not> get_fails c (SetReference_key Short repoPath n) \<Longrightarrow>
      \<not> read_fails c (SetReference_key Short repoPath n) \<Longrightarrow>
      snd (SetReference Short c repoPath new) = None
      \<and> Reference Short (fst (SetReference Short c repoPath new)) repoPath n = Inr new"
    using SetReference_then_Reference [OF repo wf put] by simp
  show ?thesis
    using names rt ok_of_cur
    by (auto simp add: CheckAndSetReference_def)
qed

lemma main_key:
  "SetReference_key demo_Short ''repositories/demo.git'' ''refs/heads/main''
     = ''repositories/demo.git/refs/heads/main''"
  by (simp add: SetReference_key_def IsRemote_def IsBranch_def HasPrefix_def demo_Short_def
        TrimPrefix_def getObjectKey_def path_Join_def Clean_def)

lemma Reference_main_A:
  "Reference demo_Short client_main_A ''repositories/demo.git'' ''refs/heads/main''
     = Inr (NewHashReference ''refs/heads/main'' hash_A)"
proof -
  have len: "length hash_A = 20" by (simp add: hash_A_def)
  show ?thesis
    by (simp add: Reference_def Reference_key_eq main_key client_main_A_def demo_client_def
          GetObject_def ReadAll_def TrimSpace_hex [OF Hash_String_hexdigits]
          hex_not_ref [OF Hash_String_hexdigits] NewHash_Hash_String [OF len])
qed

text \<open>
  With a nil \<open>old\<close> the call succeeds although the reference exists: the branch holds
  \<open>hash_A\<close>, and the call returns no error and overwrites it with \<open>hash_B\<close>.
\<close>

theorem CheckAndSetReference_nil_old_overwrites:
  "Reference demo_Short client_main_A ''repositories/demo.git'' ''refs/heads/main''
     = Inr (NewHashReference ''refs/heads/main'' hash_A)
   \<and> CheckAndSetReference demo_Short client_main_A ''repositories/demo.git''
        (NewHashReference ''refs/heads/main'' hash_B) None
     = (client_main_A\<lparr>objects := (objects client_main_A)
          (''repositories/demo.git/refs/heads/main'' \<mapsto>
             \<lparr>Body = Hash_String hash_B, Metadata = Map.empty\<rparr>)\<rparr>, None)"
proof (intro conjI)
  show "Reference demo_Short client_main_A ''repositories/demo.git'' ''refs/heads/main''
     = Inr (NewHashReference ''refs/heads/main'' hash_A)"
    by (rule Reference_main_A)
  show "CheckAndSetReference demo_Short client_main_A ''repositories/demo.git''
        (NewHashReference ''refs/heads/main'' hash_B) None
     = (client_main_A\<lparr>objects := (objects client_main_A)
          (''repositories/demo.git/refs/heads/main'' \<mapsto>
             \<lparr>Body = Hash_String hash_B, Metadata = Map.empty\<rparr>)\<rparr>, None)"
    by (simp add: CheckAndSetReference_def SetReference_def main_key
          NewHashReference_def PutObject_def client_main_A_def demo_client_def)
qed

theorem CheckAndSetReference_compare_and_swap_witness:
  "snd (CheckAndSetReference demo_Short client_main_A ''repositories/demo.git''
          (NewHashReference ''refs/heads/main'' hash_B)
          (Some (NewHashReference ''refs/heads/main'' hash_A))) = None
   \<and> Reference demo_Short
        (fst (CheckAndSetReference demo_Short client_main_A ''repositories/demo.git''
          (NewHashReference ''refs/heads/main'' hash_B)
          (Some (NewHashReference ''refs/heads/main'' hash_A))))
        ''repositories/demo.git'' ''refs/heads/main''
       = Inr (NewHashReference ''refs/heads/main'' hash_B)
   \<and> (CheckAndSetReference demo_Short client_main_A ''repositories/demo.git''
          (NewHashReference ''refs/heads/main'' hash_A)
          (Some (NewHashReference ''refs/heads/main'' hash_B))
         = (client_main_A, Some ErrReferenceChanged)
       \<or> CheckAndSetReference demo_Short client_main_A ''repositories/demo.git''
          (NewHashReference ''refs/heads/main'' hash_A)
          (Some (NewHashReference ''refs/heads/main'' hash_B))
         = (client_main_A, Some ErrReferenceTypeMismatch))
   \<and> CheckAndSetReference demo_Short (demo_client Map.empty) ''repositories/demo.git''
          (NewHashReference ''refs/heads/main'' hash_B)
          (Some (NewHashReference ''refs/heads/main'' hash_A))
       = (demo_client Map.empty, Some ErrReferenceNotFound)"
proof -
  let ?A = "NewHashReference ''refs/heads/main'' hash_A"
  let ?B = "NewHashReference ''refs/heads/main'' hash_B"
  have lenA: "length hash_A = 20" and lenB: "length hash_B = 20"
    by (simp_all add: hash_A_def hash_B_def)
  have ne: "hash_B \<noteq> hash_A"
    by (simp add: hash_A_def hash_B_def)
  have repo: "''repositories/demo.git'' \<noteq> []" by simp
  have fields: "ref_name ?A = ''refs/heads/main''" "ref_name ?B = ''refs/heads/main''"
    "ref_type ?A = HashReference" "ref_type ?B = HashReference"
    "ref_hash ?A = hash_A" "ref_hash ?B = hash_B"
    by (simp_all add: NewHashReference_def)
  have put: "\<not> put_fails client_main_A
      (SetReference_key demo_Short ''repositories/demo.git'' ''refs/heads/main'')"
    "\<not> put_fails (demo_client Map.empty)
      (SetReference_key demo_Short ''repositories/demo.git'' ''refs/heads/main'')"
    by (simp_all add: client_main_A_def demo_client_def)
  have missing: "Reference demo_Short (demo_client Map.empty) ''repositories/demo.git''
      ''refs/heads/main'' = Inl ErrReferenceNotFound"
    by (simp add: Reference_def GetObject_def demo_client_def)
  have swap: "snd (CheckAndSetReference demo_Short client_main_A ''repositories/demo.git''
          ?B (Some ?A)) = None
      \<and> Reference demo_Short
          (fst (CheckAndSetReference demo_Short client_main_A ''repositories/demo.git''
             ?B (Some ?A)))
          ''repositories/demo.git'' ''refs/heads/main'' = Inr ?B"
    using CheckAndSetReference_compare_and_swap
      [OF repo fields(1), where new = ?B and h = hash_B and t = "[]" and c = client_main_A
         and Short = demo_Short]
      lenB put(1) Reference_main_A fields
    by simp
  have stale: "CheckAndSetReference demo_Short client_main_A ''repositories/demo.git''
          ?A (Some ?B) = (client_main_A, Some ErrReferenceChanged)
       \<or> CheckAndSetReference demo_Short client_main_A ''repositories/demo.git''
          ?A (Some ?B) = (client_main_A, Some ErrReferenceTypeMismatch)"
    using CheckAndSetReference_compare_and_swap
      [OF repo fields(2), where new = ?A and h = hash_A and t = "[]" and c = client_main_A
         and Short = demo_Short]
      lenA put(1) Reference_main_A fields ne
    by simp
  have absent: "CheckAndSetReference demo_Short (demo_client Map.empty) ''repositories/demo.git''
          ?B (Some ?A) = (demo_client Map.empty, Some ErrReferenceNotFound)"
    using CheckAndSetReference_compare_and_swap
      [OF repo fields(1), where new = ?B and h = hash_B and t = "[]"
         and c = "demo_client Map.empty" and Short = demo_Short]
      lenB put(2) missing
    by simp
  show ?thesis
    using swap stale absent by simp
qed

section \<open>The HTTP announcement\<close>

text \<open>
  C3 (as the code has it).  On a writer that accepts every write, the announcement for
  the service \<open>git-upload-pack\<close> is exactly the bytes \<open>001e# service=git-upload-pack\n0000\<close>:
  the four-digit header is the hexadecimal text of 30, which is 4 plus the 26 bytes of the line
  \<open># service=git-upload-pack\n\<close>, and the terminator \<open>0000\<close> follows the line.
\<close>

theorem WriteServiceAdvertisement_upload_pack:
  "budget w = None \<Longrightarrow>
   WriteServiceAdvertisement w ''git-upload-pack'' =
     (w\<lparr>written := written w @ ''001e# service=git-upload-pack'' @ [CHR 0x0A] @ ''0000''\<rparr>, None)
   \<and> 4 + length (''# service=git-upload-pack'' @ [CHR 0x0A]) = (30::nat)"
  by (simp add: WriteServiceAdvertisement_def Write_def hexdigits_def)

theorem WriteServiceAdvertisement_upload_pack_witness:
  "budget \<lparr>written = [], budget = None\<rparr> = None \<and>
   WriteServiceAdvertisement \<lparr>written = [], budget = None\<rparr> ''git-upload-pack'' =
     (\<lparr>written = ''001e# service=git-upload-pack'' @ [CHR 0x0A] @ ''0000'', budget = None\<rparr>, None)"
  using WriteServiceAdvertisement_upload_pack [of "\<lparr>written = [], budget = None\<rparr>"]
  by simp

text \<open>The bytes \<open>0032# service=git-upload-pack\n0000\<close> are not what is written.\<close>

theorem WriteServiceAdvertisement_not_0032:
  "WriteServiceAdvertisement \<lparr>written = [], budget = None\<rparr> ''git-upload-pack'' \<noteq>
     (\<lparr>written = ''0032# service=git-upload-pack'' @ [CHR 0x0A] @ ''0000'', budget = None\<rparr>, None)"
  by (simp add: WriteServiceAdvertisement_def Write_def hexdigits_def)

section \<open>Content addressing on the remote backend\<close>

text \<open>
  C2.  Let \<open>t\<close> be blob, tree, commit or tag and \<open>p\<close> a payload, handed over as an object
  whose own hash is unset or is the engine's hash of \<open>(t, p)\<close>, and let the requests on
  the object's key succeed.  Then \<open>SetEncodedObject\<close> returns the hash \<open>hasher t p\<close>, which
  depends on \<open>(t, p)\<close> only; afterwards \<open>EncodedObject\<close> of that hash returns type \<open>t\<close> and
  payload \<open>p\<close>, whatever type the caller names; the only key written is the key of that
  hash; and storing the same object again returns the same hash and leaves the bucket as
  it is.
\<close>

theorem SetEncodedObject_content_addressed:
  assumes t: "t \<in> {BlobObject, TreeObject, CommitObject, TagObject}"
    and obj: "obj_type obj = t" "obj_content obj = p" "\<not> obj_reader_fails obj"
    and hash: "obj_hash obj = ZeroHash \<or> obj_hash obj = hasher t p"
    and ok: "\<not> put_fails c (objectKey repoPath (hasher t p))"
            "\<not> get_fails c (objectKey repoPath (hasher t p))"
            "\<not> read_fails c (objectKey repoPath (hasher t p))"
    and c': "c' = fst (SetEncodedObject hasher c repoPath obj)"
  shows "SetEncodedObject hasher c repoPath obj = (c', hasher t p, None)
           \<and> EncodedObject c' repoPath t' (hasher t p)
               = Inr \<lparr>mo_type = t, mo_size = length p, mo_content = p\<rparr>
           \<and> objects c' = (objects c)(objectKey repoPath (hasher t p) \<mapsto>
                \<lparr>Body = p, Metadata = [''git-type'' \<mapsto> ObjectType_String t]\<rparr>)
           \<and> SetEncodedObject hasher c' repoPath obj = (c', hasher t p, None)"
proof -
  let ?h = "hasher t p"
  let ?k = "objectKey repoPath ?h"
  let ?o = "\<lparr>Body = p, Metadata = [''git-type'' \<mapsto> ObjectType_String t]\<rparr>"
  let ?c' = "c\<lparr>objects := (objects c)(?k \<mapsto> ?o)\<rparr>"
  have nd: "obj_type obj \<noteq> OFSDeltaObject" "obj_type obj \<noteq> REFDeltaObject"
    using t obj by auto
  have put: "SetEncodedObject hasher c repoPath obj = (?c', ?h, None)"
    using nd obj ok hash by (auto simp add: SetEncodedObject_def PutObject_def Let_def)
  have get: "EncodedObject ?c' repoPath t' ?h = Inr \<lparr>mo_type = t, mo_size = length p, mo_content = p\<rparr>"
    using t ok by (auto simp add: EncodedObject_def GetObject_def ReadAll_def Let_def)
  have put2: "SetEncodedObject hasher ?c' repoPath obj = (?c', ?h, None)"
    using nd obj ok hash by (auto simp add: SetEncodedObject_def PutObject_def Let_def)
  have "c' = ?c'"
    using c' put by simp
  then show ?thesis using put get put2 by simp
qed

theorem SetEncodedObject_content_addressed_witness:
  "SetEncodedObject demo_hasher (demo_client Map.empty) ''repositories/demo.git''
       \<lparr>obj_type = BlobObject, obj_hash = ZeroHash, obj_content = ''hello'',
        obj_reader_fails = False\<rparr>
     = (fst (SetEncodedObject demo_hasher (demo_client Map.empty) ''repositories/demo.git''
          \<lparr>obj_type = BlobObject, obj_hash = ZeroHash, obj_content = ''hello'',
           obj_reader_fails = False\<rparr>),
        demo_hasher BlobObject ''hello'', None)
   \<and> EncodedObject
        (fst (SetEncodedObject demo_hasher (demo_client Map.empty) ''repositories/demo.git''
          \<lparr>obj_type = BlobObject, obj_hash = ZeroHash, obj_content = ''hello'',
           obj_reader_fails = False\<rparr>))
        ''repositories/demo.git'' AnyObject (demo_hasher BlobObject ''hello'')
     = Inr \<lparr>mo_type = BlobObject, mo_size = 5, mo_content = ''hello''\<rparr>"
  using SetEncodedObject_content_addressed
    [of BlobObject
        "\<lparr>obj_type = BlobObject, obj_hash = ZeroHash, obj_content = ''hello'',
          obj_reader_fails = False\<rparr>"
        "''hello''" demo_hasher "demo_client Map.empty" "''repositories/demo.git''" _ AnyObject]
  by (simp add: demo_client_def)

section \<open>Reading the configuration on the remote backend\<close>

text \<open>
  C10.  \<open>Config\<close> never fails with a not-found error.  When the bucket holds nothing under
  the configuration key, the result is the fresh default configuration and no error.
  When \<open>Config\<close> does return an error, the bucket holds a configuration blob, and the
  error is either the failure to read that blob's body or the parser's error on its content.
\<close>

theorem Config_absent_key_default:
  "(objects c (getObjectKey repoPath ''config'') = None \<longrightarrow>
      Config empty_cfg unmarshal c repoPath = (Some empty_cfg, None))
   \<and> (\<forall>err. snd (Config empty_cfg unmarshal c repoPath) = Some err \<longrightarrow>
         err \<noteq> ErrObjectNotFound \<and> err \<noteq> ErrReferenceNotFound \<and> err \<noteq> ErrNoSuchKey
         \<and> (\<exists>obj. objects c (getObjectKey repoPath ''config'') = Some obj
               \<and> (err = ErrRead \<and> read_fails c (getObjectKey repoPath ''config'')
                   \<or> (\<exists>msg. err = ErrParse msg \<and> snd (unmarshal (Body obj)) = Some msg))))"
  by (auto simp add: Config_def GetObject_def ReadAll_def Let_def
           split: sum.splits option.splits if_splits prod.splits)

lemma demo_config_key:
  "getObjectKey ''repositories/demo.git'' ''config'' = ''repositories/demo.git/config''"
  by (simp add: getObjectKey_def path_Join_def Clean_def)

theorem Config_absent_key_default_witness:
  "objects (demo_client Map.empty) (getObjectKey ''repositories/demo.git'' ''config'') = None
   \<and> Config [] demo_unmarshal (demo_client Map.empty) ''repositories/demo.git'' = (Some [], None)
   \<and> snd (Config [] demo_unmarshal
        (demo_client [''repositories/demo.git/config'' \<mapsto> \<lparr>Body = ''bare'', Metadata = Map.empty\<rparr>])
        ''repositories/demo.git'') = Some (ErrParse ''malformed line'')"
  using Config_absent_key_default [of "demo_client Map.empty" "''repositories/demo.git''" "[]" demo_unmarshal]
    Config_absent_key_default [of "demo_client [''repositories/demo.git/config'' \<mapsto> \<lparr>Body = ''bare'', Metadata = Map.empty\<rparr>]" "''repositories/demo.git''" "[]" demo_unmarshal]
  by (simp add: demo_config_key demo_client_def Config_def GetObject_def ReadAll_def demo_unmarshal_def HasPrefix_def)

section \<open>HTTP reference advertisement: status codes\<close>

text \<open>
  C5 (as the code has it).  For every request to \<open>InfoRefs\<close>: a service parameter that
  is neither \<open>git-upload-pack\<close> nor \<open>git-receive-pack\<close> is answered with status 400; with
  a valid service, a URL from which no repository path can be extracted is answered
  with status 404; and with a valid service and a repository that does not exist,
  \<open>GetTransportServer\<close> returns its not-found error (404), which \<open>InfoRefs\<close> answers with
  status 500 and the body \<open>failed to get transport server\<close>.
\<close>

theorem InfoRefs_status_codes:
  "(service \<noteq> ''git-upload-pack'' \<and> service \<noteq> ''git-receive-pack'' \<longrightarrow>
      InfoRefs RepositoryExists str eng service path = Response 400 ''invalid service parameter'')
   \<and> ((service = ''git-upload-pack'' \<or> service = ''git-receive-pack'')
        \<and> ExtractRepoPathFromURL path ''/info/refs'' = [] \<longrightarrow>
      InfoRefs RepositoryExists str eng service path = Response 404 ''Not Found'')
   \<and> ((service = ''git-upload-pack'' \<or> service = ''git-receive-pack'')
        \<and> ExtractRepoPathFromURL path ''/info/refs'' \<noteq> []
        \<and> \<not> RepositoryExists str (NormalizeRepoPath (ExtractRepoPathFromURL path ''/info/refs'')) \<longrightarrow>
      GetTransportServer RepositoryExists str (ExtractRepoPathFromURL path ''/info/refs'')
        = Inl (FiberError 404 ''repository not found'')
      \<and> InfoRefs RepositoryExists str eng service path
        = Response 500 ''failed to get transport server'')"
  by (auto simp add: InfoRefs_def GetTransportServer_def Let_def)

lemma ExtractRepoPathFromURL_nonexistent:
  "ExtractRepoPathFromURL ''/nonexistent-repo.git/info/refs'' ''/info/refs''
     = ''nonexistent-repo.git''"
  by code_simp

lemma NormalizeRepoPath_nonexistent:
  "NormalizeRepoPath ''nonexistent-repo.git'' = ''nonexistent-repo.git''"
  by code_simp

text \<open>The request of the integration test for a missing repository is answered with 500.\<close>

theorem InfoRefs_missing_repository_500:
  "InfoRefs mem_RepositoryExists [] demo_engine ''git-upload-pack''
     ''/nonexistent-repo.git/info/refs'' = Response 500 ''failed to get transport server''"
  by (simp add: InfoRefs_def ExtractRepoPathFromURL_nonexistent GetTransportServer_def
        NormalizeRepoPath_nonexistent mem_RepositoryExists_def)

theorem InfoRefs_status_codes_witness:
  "InfoRefs mem_RepositoryExists [] demo_engine ''git-archive'' ''/demo.git/info/refs''
     = Response 400 ''invalid service parameter''
   \<and> InfoRefs mem_RepositoryExists [] demo_engine ''git-upload-pack'' ''/info/refs''
     = Response 404 ''Not Found''
   \<and> InfoRefs mem_RepositoryExists [] demo_engine ''git-receive-pack''
       ''/nonexistent-repo.git/info/refs'' = Response 500 ''failed to get transport server''"
proof -
  have e: "ExtractRepoPathFromURL ''/info/refs'' ''/info/refs'' = []"
    by code_simp
  have a: "InfoRefs mem_RepositoryExists [] demo_engine ''git-archive'' ''/demo.git/info/refs''
     = Response 400 ''invalid service parameter''"
    using InfoRefs_status_codes [of "''git-archive''" mem_RepositoryExists "[]" demo_engine
        "''/demo.git/info/refs''"]
    by simp
  have b: "InfoRefs mem_RepositoryExists [] demo_engine ''git-upload-pack'' ''/info/refs''
     = Response 404 ''Not Found''"
    using InfoRefs_status_codes [of "''git-upload-pack''" mem_RepositoryExists "[]" demo_engine
        "''/info/refs''"] e
    by simp
  have c: "InfoRefs mem_RepositoryExists [] demo_engine ''git-receive-pack''
       ''/nonexistent-repo.git/info/refs'' = Response 500 ''failed to get transport server''"
    using InfoRefs_status_codes [of "''git-receive-pack''" mem_RepositoryExists "[]" demo_engine
        "''/nonexistent-repo.git/info/refs''"]
    by (simp add: ExtractRepoPathFromURL_nonexistent NormalizeRepoPath_nonexistent
          mem_RepositoryExists_def)
  show ?thesis using a b c by simp
qed

section \<open>Relaying the status report of a push\<close>

text \<open>
  When \<open>ReceivePack\<close> returns a report together with an error, the HTTP handler answers
  with the report as the body, and \<open>SSHConfig.handleReceivePack\<close> writes the report
  before it exits with status 1.
\<close>

lemma HandleReceivePack_relays_report:
  assumes "ExtractRepoPathFromURL path ''/git-receive-pack'' \<noteq> []"
    and "RepositoryExists str (NormalizeRepoPath (ExtractRepoPathFromURL path ''/git-receive-pack''))"
    and "session_error eng = None" "decode_error eng = None"
    and "receive_pack eng = (Some report, Some err)"
    and "report_encode_error eng = None"
  shows "HandleReceivePack RepositoryExists str eng path = Response 200 report"
  using assms by (simp add: HandleReceivePack_def GetTransportServer_def Let_def)

lemma SSHConfig_handleReceivePack_relays_report:
  assumes "session_error eng = None" "advertised eng = Inr adv" "adv_encode_error eng = None"
    and "decode_error eng = None"
    and "receive_pack eng = (Some report, Some err)"
    and "report_encode_error eng = None"
  shows "SSHConfig_handleReceivePack eng
           = \<lparr>stdout = adv_bytes adv @ report, stderr = [], exit_status = Some 1\<rparr>"
  using assms by (simp add: SSHConfig_handleReceivePack_def)

text \<open>
  \<open>GitSSHServer.handleReceivePack\<close> returns the error at once: whatever the report, the
  channel has received at most the advertised references.
\<close>

lemma GitSSHServer_handleReceivePack_error_drops_report:
  assumes "receive_pack eng = (report, Some err)"
  shows "fst (GitSSHServer_handleReceivePack RepositoryExists str eng repoPath) = []
         \<or> (\<exists>adv. advertised eng = Inr adv
               \<and> fst (GitSSHServer_handleReceivePack RepositoryExists str eng repoPath) = adv_bytes adv)"
  using assms
  by (auto simp add: GitSSHServer_handleReceivePack_def split: sum.splits option.splits fiber_error.splits)

text \<open>
  C4 at a push to \<open>demo.git\<close> over the Git SSH server in which \<open>ReceivePack\<close> returns
  the report \<open><report>\<close> and the error \<open>unpack error\<close>: the handler returns the error
  after the advertised references, and the channel is closed with exit status 1 without
  the report having been written.
\<close>

theorem GitSSHServer_handleReceivePack_drops_report:
  "GitSSHServer_handleReceivePack mem_RepositoryExists [''demo.git'']
      (demo_engine\<lparr>receive_pack := (Some ''<report>'', Some ''unpack error'')\<rparr>) ''demo.git''
     = (''<refs>'', Some ''unpack error'')
   \<and> handleExecRequest mem_RepositoryExists [''demo.git'']
        (demo_engine\<lparr>receive_pack := (Some ''<report>'', Some ''unpack error'')\<rparr>) True
        (exec_request (''git-receive-pack '' @ quote @ ''/demo.git'' @ quote))
     = ([Reply True, Data ''<refs>'', ExitStatus 1, CloseWrite, Sleep 100, Close], Done)"
  by code_simp

section \<open>Decode failures of an SSH fetch\<close>

text \<open>In \<open>SSHConfig.handleUploadPack\<close> every decode failure ends in \<open>Exit(0)\<close>.\<close>

lemma SSHConfig_handleUploadPack_decode_failure_exit_0:
  assumes "session_error eng = None" "advertised eng = Inr adv" "adv_encode_error eng = None"
    and "decode_error eng = Some e"
  shows "exit_status (SSHConfig_handleUploadPack eng) = Some 0"
  using assms by (simp add: SSHConfig_handleUploadPack_def)

text \<open>
  In \<open>GitSSHServer.handleUploadPack\<close> a decode failure on a repository with references
  is returned as an error unless its message contains one of the two searched texts.
\<close>

lemma GitSSHServer_handleUploadPack_decode_failure:
  assumes "RepositoryExists str (NormalizeRepoPath repoPath)"
    and "session_error eng = None" "advertised eng = Inr adv" "adv_encode_error eng = None"
    and "References adv \<noteq> []"
    and "decode_error eng = Some e"
  shows "snd (GitSSHServer_handleUploadPack RepositoryExists str eng repoPath)
           = (if Contains e missing_want_substr \<or> Contains e ''EOF'' then None else Some e)"
  using assms by (simp add: GitSSHServer_handleUploadPack_def GetTransportServer_def)

text \<open>
  C6 at four sessions on a repository with one branch.  \<open>SSHConfig.handleUploadPack\<close>
  exits with status 0 on the decoder's message \<open>pkt-line 1: missing 'want ' prefix\<close>, and
  also on a decode failure of another shape, after writing it to the error stream.
  \<open>GitSSHServer.handleUploadPack\<close> returns that same first message as an error, and the
  channel is closed with exit status 1.
\<close>

theorem upload_pack_decode_failures:
  "SSHConfig_handleUploadPack (demo_engine\<lparr>decode_error := Some missing_want_msg\<rparr>)
     = \<lparr>stdout = ''<refs>'', stderr = [], exit_status = Some 0\<rparr>
   \<and> SSHConfig_handleUploadPack
       (demo_engine\<lparr>decode_error := Some ''pkt-line 2: unexpected payload''\<rparr>)
     = \<lparr>stdout = ''<refs>'',
        stderr = ''Request decode error: pkt-line 2: unexpected payload'' @ newline,
        exit_status = Some 0\<rparr>
   \<and> GitSSHServer_handleUploadPack mem_RepositoryExists [''demo.git'']
       (demo_engine\<lparr>decode_error := Some missing_want_msg\<rparr>) ''demo.git''
     = (''<refs>'', Some missing_want_msg)
   \<and> handleExecRequest mem_RepositoryExists [''demo.git'']
        (demo_engine\<lparr>decode_error := Some missing_want_msg\<rparr>) True
        (exec_request (''git-upload-pack '' @ quote @ ''/demo.git'' @ quote))
     = ([Reply True, Data ''<refs>'', ExitStatus 1, CloseWrite, Sleep 100, Close], Done)"
  by code_simp

end
